theory Spec2Isabelle
  imports Complex_Main
begin

section \<open>Data model of the ledger store\<close>

text \<open>
  The persistent store is the SQLite database created by \<open>init_db\<close> in
  \<open>database.py\<close>. Each table is a list of rows in insertion order; a
  \<open>SELECT ... WHERE\<close> followed by \<open>fetchone\<close> is \<open>find\<close>, an
  \<open>UPDATE ... WHERE\<close> is a \<open>map\<close> that rewrites the matching rows, an
  \<open>INSERT\<close> appends a row. Only the columns the ledger reads or writes are kept
  (\<open>username\<close>, \<open>phone\<close>, \<open>product_url\<close>, \<open>photo_id\<close> and
  \<open>created_at\<close> are dropped).

  The \<open>REAL\<close> columns (\<open>balance\<close>, \<open>amount\<close>, \<open>bonus\<close>) and the
  Python \<open>float\<close> values computed from them are modelled as exact real numbers.
  Where two rounded operations compose, in the debit and refund of one withdrawal, the
  two functions are given a second time with the rounding of IEEE doubles; a typed
  amount that is not a number (\<open>nan\<close>, \<open>inf\<close>) is modelled where it is parsed.

  The \<open>status\<close> columns carry the constraint
  \<open>CHECK (status IN ('pending', 'approved', 'rejected'))\<close>, and every caller
  passes one of these three literals, so a status is a value of a three-element datatype.
\<close>

datatype status = Pending | Approved | Rejected

record user_row =
  u_user_id :: int
  u_referred_by :: "int option"
  u_balance :: real
  u_is_blocked :: bool

record order_row =
  o_id :: int
  o_user_id :: int
  o_status :: status

record withdraw_row =
  w_id :: int
  w_user_id :: int
  w_amount :: real
  w_wallet :: string
  w_withdraw_type :: string
  w_status :: status

record referral_row =
  r_referrer_id :: int
  r_referred_id :: int
  r_bonus :: real
  r_level :: int

text \<open>
  Besides the four tables the state holds the module-level
  \<open>_connection_lock = threading.Lock()\<close>: \<open>True\<close> while some
  \<open>with get_connection()\<close> block is running.
\<close>

record store =
  users :: "user_row list"
  orders :: "order_row list"
  withdraw_requests :: "withdraw_row list"
  referrals :: "referral_row list"
  connection_lock :: bool

section \<open>Errors and outcomes\<close>

text \<open>
  The three \<open>ValueError\<close>s raised by \<open>database.py\<close> are told apart by
  their message; \<open>IntegrityError\<close> is the \<open>sqlite3.Error\<close> of a violated
  \<open>CHECK\<close> constraint.
\<close>

datatype error =
    UserNotFound int
  | WithdrawRequestNotFound int
  | InsufficientBalance int real real
  | IntegrityError

text \<open>
  A call either returns a value and leaves a committed store, or raises and leaves a
  committed store, or never returns: \<open>Blocked\<close> is the calling thread waiting
  forever for \<open>_connection_lock\<close>.
\<close>

datatype 'a outcome = Returned 'a store | Raised error store | Blocked

fun and_then :: "'a outcome \<Rightarrow> ('a \<Rightarrow> store \<Rightarrow> 'b outcome) \<Rightarrow> 'b outcome" where
  "and_then (Returned a s) f = f a s"
| "and_then (Raised e s) f = Raised e s"
| "and_then Blocked f = Blocked"

text \<open>
  \<open>get_connection\<close> is a context manager whose body runs inside
  \<open>with _connection_lock:\<close>. \<open>threading.Lock\<close> is not re-entrant and
  \<open>acquire\<close> is called without a timeout, so entering \<open>get_connection\<close>
  while the lock is held never returns. The lock is released when the block is left,
  normally or by an exception. The retry loop on \<open>database is locked\<close> concerns
  other processes holding the database file and is not modelled.
\<close>

definition get_connection :: "(store \<Rightarrow> 'a outcome) \<Rightarrow> store \<Rightarrow> 'a outcome" where
  "get_connection body s =
     (if connection_lock s then Blocked
      else (case body (s\<lparr>connection_lock := True\<rparr>) of
              Returned a s' \<Rightarrow> Returned a (s'\<lparr>connection_lock := False\<rparr>)
            | Raised e s' \<Rightarrow> Raised e (s'\<lparr>connection_lock := False\<rparr>)
            | Blocked \<Rightarrow> Blocked))"

section \<open>Ledger primitives\<close>

text \<open>\<open>SELECT balance FROM users WHERE user_id = ?\<close>, \<open>fetchone\<close>.\<close>

definition select_user :: "int \<Rightarrow> store \<Rightarrow> user_row option" where
  "select_user uid s = find (\<lambda>u. u_user_id u = uid) (users s)"

text \<open>\<open>UPDATE users SET balance = ? WHERE user_id = ?\<close>.\<close>

definition set_balance :: "int \<Rightarrow> real \<Rightarrow> store \<Rightarrow> store" where
  "set_balance uid b s =
     s\<lparr>users := map (\<lambda>u. if u_user_id u = uid then u\<lparr>u_balance := b\<rparr> else u) (users s)\<rparr>"

text \<open>\<open>get_user_balance\<close>: the balance, or \<open>0.0\<close> for an unknown user.\<close>

definition get_user_balance :: "int \<Rightarrow> store \<Rightarrow> real outcome" where
  "get_user_balance uid =
     get_connection (\<lambda>s. Returned (case select_user uid s of Some u \<Rightarrow> u_balance u | None \<Rightarrow> 0) s)"

text \<open>
  \<open>update_user_balance\<close>: inside \<open>BEGIN EXCLUSIVE\<close> reads the balance, raises
  \<open>ValueError\<close> for an unknown user (nothing has been written, and the open
  transaction ends with the connection), otherwise writes
  \<open>max(0.0, current + delta)\<close> and commits.
\<close>

definition update_user_balance :: "int \<Rightarrow> real \<Rightarrow> store \<Rightarrow> unit outcome" where
  "update_user_balance uid delta =
     get_connection (\<lambda>s.
       case select_user uid s of
         None \<Rightarrow> Raised (UserNotFound uid) s
       | Some u \<Rightarrow> Returned () (set_balance uid (max 0 (u_balance u + delta)) s))"

text \<open>
  \<open>add_user_balance\<close>: the single statement
  \<open>UPDATE users SET balance = balance + ? WHERE user_id = ?\<close> and a commit.
\<close>

definition add_user_balance :: "int \<Rightarrow> real \<Rightarrow> store \<Rightarrow> unit outcome" where
  "add_user_balance uid amt =
     get_connection (\<lambda>s. Returned ()
       (s\<lparr>users := map (\<lambda>u. if u_user_id u = uid then u\<lparr>u_balance := u_balance u + amt\<rparr> else u)
                        (users s)\<rparr>))"



section \<open>Orders\<close>

text \<open>
  \<open>cancel_order\<close>:
  \<open>UPDATE orders SET status = 'rejected' WHERE id = ? AND user_id = ?\<close>.
\<close>

definition cancel_order :: "int \<Rightarrow> int \<Rightarrow> store \<Rightarrow> unit outcome" where
  "cancel_order uid oid =
     get_connection (\<lambda>s. Returned ()
       (s\<lparr>orders := map (\<lambda>row. if o_id row = oid \<and> o_user_id row = uid
                                  then row\<lparr>o_status := Rejected\<rparr> else row) (orders s)\<rparr>))"

text \<open>\<open>update_order_status\<close>: \<open>UPDATE orders SET status = ? WHERE id = ?\<close>.\<close>

definition update_order_status :: "int \<Rightarrow> status \<Rightarrow> store \<Rightarrow> unit outcome" where
  "update_order_status oid st =
     get_connection (\<lambda>s. Returned ()
       (s\<lparr>orders := map (\<lambda>row. if o_id row = oid then row\<lparr>o_status := st\<rparr> else row) (orders s)\<rparr>))"

text \<open>
  \<open>get_all_orders()\<close> without filters: every order, newest first
  (\<open>ORDER BY o.created_at DESC\<close>). The \<open>LEFT JOIN\<close> on \<open>users\<close> only
  adds the \<open>username\<close> column and keeps orders whose user is unknown.
\<close>

definition get_all_orders :: "store \<Rightarrow> order_row list outcome" where
  "get_all_orders = get_connection (\<lambda>s. Returned (rev (orders s)) s)"

text \<open>
  The admin callback \<open>approve_order\<close> of \<open>handlers/admin.py\<close>: sets the status,
  looks the order up again in \<open>get_all_orders()\<close> and, when it is found, calls
  \<open>add_user_balance(order['user_id'], 10000)\<close>. The messages sent afterwards do
  not touch the store and are left out.
\<close>

definition approve_order :: "int \<Rightarrow> store \<Rightarrow> unit outcome" where
  "approve_order oid s =
     and_then (update_order_status oid Approved s) (\<lambda>_ s1.
     and_then (get_all_orders s1) (\<lambda>all_orders s2.
       case find (\<lambda>row. o_id row = oid) all_orders of
         Some order \<Rightarrow> add_user_balance (o_user_id order) 10000 s2
       | None \<Rightarrow> Returned () s2))"

section \<open>Withdrawal requests\<close>

text \<open>
  The \<open>id\<close> column is \<open>INTEGER PRIMARY KEY AUTOINCREMENT\<close>: a new row gets
  one more than the largest id used so far. No statement of the program deletes a
  withdrawal request, so that is the largest id in the table (or 0).
\<close>

definition lastrowid :: "withdraw_row list \<Rightarrow> int" where
  "lastrowid ws = 1 + fold max (map w_id ws) 0"

text \<open>
  \<open>create_withdraw_request\<close>, one \<open>BEGIN EXCLUSIVE\<close> transaction: read the
  balance, raise \<open>ValueError\<close> for an unknown user or when
  \<open>current_balance < amount\<close>, insert the request (status defaults to
  \<open>'pending'\<close>; the column constraint
  \<open>CHECK (withdraw_type IN ('card', 'phone'))\<close> makes the insert fail otherwise),
  write \<open>max(0.0, current_balance - amount)\<close>, commit. Every exception rolls back.
\<close>

definition new_request :: "int \<Rightarrow> real \<Rightarrow> string \<Rightarrow> string \<Rightarrow> store \<Rightarrow> withdraw_row" where
  "new_request uid amt wal wtype s =
     \<lparr>w_id = lastrowid (withdraw_requests s), w_user_id = uid, w_amount = amt, w_wallet = wal,
      w_withdraw_type = wtype, w_status = Pending\<rparr>"

definition create_withdraw_request :: "int \<Rightarrow> real \<Rightarrow> string \<Rightarrow> string \<Rightarrow> store \<Rightarrow> int outcome" where
  "create_withdraw_request uid amt wal wtype =
     get_connection (\<lambda>s.
       case select_user uid s of
         None \<Rightarrow> Raised (UserNotFound uid) s
       | Some u \<Rightarrow>
           if u_balance u < amt then Raised (InsufficientBalance uid (u_balance u) amt) s
           else if wtype \<noteq> ''card'' \<and> wtype \<noteq> ''phone'' then Raised IntegrityError s
           else
             let s1 = s\<lparr>withdraw_requests :=
                          withdraw_requests s @ [new_request uid amt wal wtype s]\<rparr>;
                 withdraw_id = lastrowid (withdraw_requests s)
             in Returned withdraw_id (set_balance uid (max 0 (u_balance u - amt)) s1))"

text \<open>\<open>UPDATE withdraw_requests SET status = ? WHERE id = ?\<close>.\<close>

definition set_request_status :: "int \<Rightarrow> status \<Rightarrow> store \<Rightarrow> store" where
  "set_request_status rid st s =
     s\<lparr>withdraw_requests :=
         map (\<lambda>w. if w_id w = rid then w\<lparr>w_status := st\<rparr> else w) (withdraw_requests s)\<rparr>"

text \<open>\<open>SELECT user_id, amount FROM withdraw_requests WHERE id = ?\<close>, \<open>fetchone\<close>.\<close>

definition select_request :: "int \<Rightarrow> store \<Rightarrow> withdraw_row option" where
  "select_request rid s = find (\<lambda>w. w_id w = rid) (withdraw_requests s)"

definition update_withdraw_request_status :: "int \<Rightarrow> status \<Rightarrow> store \<Rightarrow> unit outcome" where
  "update_withdraw_request_status rid st =
     get_connection (\<lambda>s. Returned () (set_request_status rid st s))"

text \<open>
  \<open>reject_withdraw_request_and_refund\<close>, one transaction: read the request by id
  (\<open>ValueError\<close> if absent), set its status to \<open>'rejected'\<close>, read the owner's
  balance (\<open>ValueError\<close> if the user is absent, which rolls the status back), write
  \<open>current_balance + amount\<close>, commit. The status of the request is not read.
\<close>

definition reject_withdraw_request_and_refund :: "int \<Rightarrow> store \<Rightarrow> unit outcome" where
  "reject_withdraw_request_and_refund rid =
     get_connection (\<lambda>s.
       case select_request rid s of
         None \<Rightarrow> Raised (WithdrawRequestNotFound rid) s
       | Some req \<Rightarrow>
           let s1 = set_request_status rid Rejected s
           in (case select_user (w_user_id req) s1 of
                 None \<Rightarrow> Raised (UserNotFound (w_user_id req)) s
               | Some u \<Rightarrow>
                   Returned () (set_balance (w_user_id req) (u_balance u + w_amount req) s1)))"

text \<open>
  \<open>set_withdraw_status\<close>: inside its own \<open>with get_connection()\<close> block it reads
  the request and, for \<open>status == "rejected"\<close> on an existing request, calls
  \<open>update_user_balance(row["user_id"], row["amount"])\<close>, which enters
  \<open>get_connection\<close> again while the lock is held. Then it updates the status and
  commits.
\<close>

definition set_withdraw_status :: "int \<Rightarrow> status \<Rightarrow> store \<Rightarrow> unit outcome" where
  "set_withdraw_status wid st =
     get_connection (\<lambda>s.
       and_then (case select_request wid s of
                   Some row \<Rightarrow> if st = Rejected
                               then update_user_balance (w_user_id row) (w_amount row) s
                               else Returned () s
                 | None \<Rightarrow> Returned () s)
         (\<lambda>_ s1. Returned () (set_request_status wid st s1)))"

text \<open>
  \<open>get_pending_withdraw_requests\<close> (newest first) and \<open>get_pending_withdraws\<close>:
  the requests whose status is \<open>'pending'\<close>.
\<close>

definition get_pending_withdraw_requests :: "store \<Rightarrow> withdraw_row list outcome" where
  "get_pending_withdraw_requests =
     get_connection (\<lambda>s. Returned (rev (filter (\<lambda>w. w_status w = Pending) (withdraw_requests s))) s)"

definition get_pending_withdraws :: "store \<Rightarrow> withdraw_row list outcome" where
  "get_pending_withdraws =
     get_connection (\<lambda>s. Returned (filter (\<lambda>w. w_status w = Pending) (withdraw_requests s)) s)"

section \<open>Admin and user callbacks on withdrawals\<close>

text \<open>What a callback answers; the texts themselves are not modelled.\<close>

datatype reply =
    Done
  | NotFound
  | InsufficientFunds
  | BelowMinimum
  | NotPositive
  | AmountAccepted
  | Failed error

text \<open>
  \<open>try: ... except Exception\<close> around a store call: the exception becomes an
  answer, the store stays as the failed call left it.
\<close>

fun except_Exception :: "reply outcome \<Rightarrow> reply outcome" where
  "except_Exception (Raised e s) = Returned (Failed e) s"
| "except_Exception r = r"


text \<open>
  \<open>process_payment\<close> of \<open>handlers/admin.py\<close>: approves a pending request with
  \<open>update_withdraw_request_status(request_id, "approved")\<close>.
\<close>

definition process_payment :: "int \<Rightarrow> store \<Rightarrow> reply outcome" where
  "process_payment rid s =
     and_then (get_pending_withdraw_requests s) (\<lambda>requests s1.
       case find (\<lambda>r. w_id r = rid) requests of
         None \<Rightarrow> Returned NotFound s1
       | Some req \<Rightarrow>
           and_then (update_withdraw_request_status rid Approved s1) (\<lambda>_. Returned Done))"

text \<open>
  \<open>accept_withdraw\<close> of \<open>handlers/payments.py\<close> ("Approves a withdraw request and
  deducts the amount from the user's balance"): finds the pending request, reads the
  balance, answers "insufficient" when \<open>amount > current_balance\<close>, otherwise calls
  \<open>update_user_balance(user_id, current_balance - amount)\<close> and
  \<open>set_withdraw_status(wid, "approved")\<close>; the whole body is inside
  \<open>try ... except Exception\<close>.
\<close>

definition accept_withdraw :: "int \<Rightarrow> store \<Rightarrow> reply outcome" where
  "accept_withdraw wid s =
     except_Exception
       (and_then (get_pending_withdraws s) (\<lambda>pending s1.
          case find (\<lambda>w. w_id w = wid) pending of
            None \<Rightarrow> Returned NotFound s1
          | Some withdraw \<Rightarrow>
              and_then (get_user_balance (w_user_id withdraw) s1) (\<lambda>current_balance s2.
                if w_amount withdraw > current_balance then Returned InsufficientFunds s2
                else
                  and_then (update_user_balance (w_user_id withdraw)
                              (current_balance - w_amount withdraw) s2) (\<lambda>_ s3.
                  and_then (set_withdraw_status wid Approved s3) (\<lambda>_. Returned Done)))))"

text \<open>
  The amount a user types is parsed by \<open>float(message.text.replace(",", "."))\<close>,
  which accepts decimal numerals and also the texts \<open>inf\<close>, \<open>-inf\<close> and
  \<open>nan\<close>. The three comparisons of the handler are those of Python floats: every
  comparison with NaN is false.
\<close>

datatype py_float = Finite real | PosInf | NegInf | NaN

fun float_lt :: "py_float \<Rightarrow> real \<Rightarrow> bool" where
  "float_lt (Finite x) y = (x < y)"
| "float_lt PosInf y = False"
| "float_lt NegInf y = True"
| "float_lt NaN y = False"

fun float_le :: "py_float \<Rightarrow> real \<Rightarrow> bool" where
  "float_le (Finite x) y = (x \<le> y)"
| "float_le PosInf y = False"
| "float_le NegInf y = True"
| "float_le NaN y = False"

fun float_gt :: "py_float \<Rightarrow> real \<Rightarrow> bool" where
  "float_gt (Finite x) y = (x > y)"
| "float_gt PosInf y = True"
| "float_gt NegInf y = False"
| "float_gt NaN y = False"

text \<open>
  \<open>process_withdraw_amount\<close> of \<open>handlers/payments.py\<close>, after the text has been
  parsed: reads the balance, refuses an amount below
  \<open>Config.reward.MIN_WITHDRAW_AMOUNT\<close>, an amount \<open>\<le> 0\<close> and an amount above the
  balance, otherwise records the amount in the conversation data. The conversation
  data is the amount recorded so far.
\<close>

definition process_withdraw_amount ::
  "real \<Rightarrow> int \<Rightarrow> py_float \<Rightarrow> py_float option \<Rightarrow> store \<Rightarrow> (reply \<times> py_float option) outcome" where
  "process_withdraw_amount MIN_WITHDRAW_AMOUNT uid amt data s =
     and_then (get_user_balance uid s) (\<lambda>balance s1.
       if float_lt amt MIN_WITHDRAW_AMOUNT then Returned (BelowMinimum, data) s1
       else if float_le amt 0 then Returned (NotPositive, data) s1
       else if float_gt amt balance then Returned (InsufficientFunds, data) s1
       else Returned (AmountAccepted, Some amt) s1)"

section \<open>Referrals\<close>

text \<open>
  \<open>add_referral\<close>: inside its own \<open>with get_connection()\<close> block,
  \<open>INSERT OR IGNORE\<close> skips the row when the pair is already there
  (\<open>UNIQUE (referrer_id, referred_id)\<close>) or when \<open>CHECK (level >= 1)\<close> fails;
  then, \<open>if bonus > 0\<close>, whether or not a row was inserted, it calls
  \<open>update_user_balance(referrer_id, bonus)\<close>, which enters \<open>get_connection\<close>
  again while the lock is held.
\<close>

definition add_referral :: "int \<Rightarrow> int \<Rightarrow> real \<Rightarrow> int \<Rightarrow> store \<Rightarrow> unit outcome" where
  "add_referral referrer referred bon lvl =
     get_connection (\<lambda>s.
       let s1 = (case find (\<lambda>r. r_referrer_id r = referrer \<and> r_referred_id r = referred)
                        (referrals s) of
                   Some existing \<Rightarrow> s
                 | None \<Rightarrow>
                     if lvl < 1 then s
                     else s\<lparr>referrals := referrals s @
                            [\<lparr>r_referrer_id = referrer, r_referred_id = referred,
                              r_bonus = bon, r_level = lvl\<rparr>]\<rparr>)
       in if bon > 0
          then and_then (update_user_balance referrer bon s1) (\<lambda>_. Returned ())
          else Returned () s1)"

section \<open>The withdrawal round trip in double arithmetic\<close>

text \<open>
  The definitions above compute balances as exact reals. A Python \<open>float\<close> and an
  SQLite \<open>REAL\<close> are IEEE 754 binary64 numbers, and the result of \<open>a + b\<close> or
  \<open>a - b\<close> is the exact result rounded to the nearest such number, ties to the even
  mantissa. \<open>double_round\<close> is that rounding on the reals: 53 bits of mantissa,
  exponents from -1022 (below it the spacing stays \<open>2 powi (-1074)\<close>). Results of
  magnitude \<open>2 ^ 1024\<close> and above, which the machine turns into infinities, are
  outside it.
\<close>

definition round_half_even :: "real \<Rightarrow> int" where
  "round_half_even y =
     (let f = \<lfloor>y\<rfloor>; r = y - of_int f
      in if r < 1 / 2 then f else if 1 / 2 < r then f + 1 else if even f then f else f + 1)"

definition double_exponent :: "real \<Rightarrow> int" where
  "double_exponent x = max \<lfloor>log 2 \<bar>x\<bar>\<rfloor> (- 1022)"

definition double_round :: "real \<Rightarrow> real" where
  "double_round x =
     (if x = 0 then 0
      else of_int (round_half_even (x / 2 powi (double_exponent x - 52)))
             * 2 powi (double_exponent x - 52))"

text \<open>
  \<open>create_withdraw_request\<close> and \<open>reject_withdraw_request_and_refund\<close> once more,
  statement by statement as above, with the results of
  \<open>current_balance - amount\<close> and \<open>current_balance + amount\<close> rounded as the
  machine rounds them.
\<close>

definition create_withdraw_request_double ::
  "int \<Rightarrow> real \<Rightarrow> string \<Rightarrow> string \<Rightarrow> store \<Rightarrow> int outcome" where
  "create_withdraw_request_double uid amt wal wtype =
     get_connection (\<lambda>s.
       case select_user uid s of
         None \<Rightarrow> Raised (UserNotFound uid) s
       | Some u \<Rightarrow>
           if u_balance u < amt then Raised (InsufficientBalance uid (u_balance u) amt) s
           else if wtype \<noteq> ''card'' \<and> wtype \<noteq> ''phone'' then Raised IntegrityError s
           else
             let s1 = s\<lparr>withdraw_requests :=
                          withdraw_requests s @ [new_request uid amt wal wtype s]\<rparr>;
                 withdraw_id = lastrowid (withdraw_requests s)
             in Returned withdraw_id
                  (set_balance uid (max 0 (double_round (u_balance u - amt))) s1))"

definition reject_withdraw_request_and_refund_double :: "int \<Rightarrow> store \<Rightarrow> unit outcome" where
  "reject_withdraw_request_and_refund_double rid =
     get_connection (\<lambda>s.
       case select_request rid s of
         None \<Rightarrow> Raised (WithdrawRequestNotFound rid) s
       | Some req \<Rightarrow>
           let s1 = set_request_status rid Rejected s
           in (case select_user (w_user_id req) s1 of
                 None \<Rightarrow> Raised (UserNotFound (w_user_id req)) s
               | Some u \<Rightarrow>
                   Returned () (set_balance (w_user_id req)
                                  (double_round (u_balance u + w_amount req)) s1)))"

text \<open>Creating a request and then rejecting the request that was created.\<close>

definition withdraw_then_reject_double ::
  "int \<Rightarrow> real \<Rightarrow> string \<Rightarrow> string \<Rightarrow> store \<Rightarrow> unit outcome" where
  "withdraw_then_reject_double uid amt wal wtype s =
     and_then (create_withdraw_request_double uid amt wal wtype s)
       reject_withdraw_request_and_refund_double"

section \<open>Observing runs\<close>

text \<open>Calling the same operation a second time on the store the first call left.\<close>

definition twice :: "(store \<Rightarrow> 'a outcome) \<Rightarrow> store \<Rightarrow> 'a outcome" where
  "twice f s = and_then (f s) (\<lambda>_. f)"

text \<open>
  The balance \<open>get_user_balance\<close> reports after a call that returned; \<open>None\<close> when
  the call raised or never returned.
\<close>

fun balance_after :: "int \<Rightarrow> 'a outcome \<Rightarrow> real option" where
  "balance_after uid (Returned a s) =
     (case get_user_balance uid s of Returned b s' \<Rightarrow> Some b | _ \<Rightarrow> None)"
| "balance_after uid (Raised e s) = None"
| "balance_after uid Blocked = None"

section \<open>Example stores\<close>

text \<open>
  User 7 with balance 600 and user 8 with balance 50; order 1 of user 7, pending, and
  order 2 of user 7, approved; withdrawal request 1 of user 7 for 400, pending.
\<close>

definition example_user :: user_row where
  "example_user = \<lparr>u_user_id = 7, u_referred_by = None, u_balance = 600, u_is_blocked = False\<rparr>"

definition example_store :: store where
  "example_store =
     \<lparr>users = [example_user,
               \<lparr>u_user_id = 8, u_referred_by = Some 7, u_balance = 50, u_is_blocked = False\<rparr>],
      orders = [\<lparr>o_id = 1, o_user_id = 7, o_status = Pending\<rparr>,
                \<lparr>o_id = 2, o_user_id = 7, o_status = Approved\<rparr>],
      withdraw_requests =
        [\<lparr>w_id = 1, w_user_id = 7, w_amount = 400, w_wallet = ''8600123412341234'',
          w_withdraw_type = ''card'', w_status = Pending\<rparr>],
      referrals = [],
      connection_lock = False\<rparr>"

text \<open>
  The request that \<open>create_withdraw_request(7, 400, ..., 'card')\<close> adds to the example
  store, and the store it leaves.
\<close>

definition example_request :: withdraw_row where
  "example_request =
     \<lparr>w_id = 2, w_user_id = 7, w_amount = 400, w_wallet = ''8600123412341234'',
      w_withdraw_type = ''card'', w_status = Pending\<rparr>"

definition example_store_debited :: store where
  "example_store_debited =
     set_balance 7 200
       (example_store\<lparr>withdraw_requests := withdraw_requests example_store @ [example_request]\<rparr>)"

text \<open>
  A store whose only user has the balance a user gets by being credited the typed
  amount 3058.72, that is the double nearest to it; and the double nearest to 1009.97.
\<close>

definition double_3058_72 :: real where
  "double_3058_72 = 6726196412222013 / 2199023255552"

definition double_1009_97 :: real where
  "double_1009_97 = 4441895034819707 / 4398046511104"

definition rounding_store :: store where
  "rounding_store =
     \<lparr>users = [\<lparr>u_user_id = 7, u_referred_by = None, u_balance = double_3058_72,
                 u_is_blocked = False\<rparr>],
      orders = [], withdraw_requests = [], referrals = [], connection_lock = False\<rparr>"


section \<open>Basic facts about the primitives\<close>

lemmas store_defs =
  get_connection_def select_user_def set_balance_def get_user_balance_def
  update_user_balance_def add_user_balance_def lastrowid_def new_request_def
  create_withdraw_request_def set_request_status_def select_request_def
  reject_withdraw_request_and_refund_def get_pending_withdraw_requests_def
  twice_def example_user_def example_store_def

lemma get_connection_held: "connection_lock s \<Longrightarrow> get_connection body s = Blocked"
  by (simp add: get_connection_def)

lemma find_balance_map:
  "find (\<lambda>u. u_user_id u = uid)
     (map (\<lambda>u. if u_user_id u = uid then u\<lparr>u_balance := f u\<rparr> else u) us)
   = map_option (\<lambda>u. u\<lparr>u_balance := f u\<rparr>) (find (\<lambda>u. u_user_id u = uid) us)"
  by (induction us) auto

lemma select_user_lock [simp]: "select_user uid (s\<lparr>connection_lock := b\<rparr>) = select_user uid s"
  by (simp add: select_user_def)

lemma select_user_requests [simp]:
  "select_user uid (s\<lparr>withdraw_requests := ws\<rparr>) = select_user uid s"
  by (simp add: select_user_def)

lemma select_user_set_request_status [simp]:
  "select_user uid (set_request_status rid st s) = select_user uid s"
  by (simp add: select_user_def set_request_status_def)

lemma select_user_set_balance:
  "select_user uid (set_balance uid b s) = map_option (\<lambda>u. u\<lparr>u_balance := b\<rparr>) (select_user uid s)"
  by (simp add: select_user_def set_balance_def find_balance_map)

lemma connection_lock_set_balance [simp]:
  "connection_lock (set_balance uid b s) = connection_lock s"
  by (simp add: set_balance_def)

lemma connection_lock_set_request_status [simp]:
  "connection_lock (set_request_status rid st s) = connection_lock s"
  by (simp add: set_request_status_def)

lemma withdraw_requests_set_balance [simp]:
  "withdraw_requests (set_balance uid b s) = withdraw_requests s"
  by (simp add: set_balance_def)

lemma select_request_set_balance [simp]:
  "select_request rid (set_balance uid b s) = select_request rid s"
  by (simp add: select_request_def)


lemma get_user_balance_result:
  assumes "\<not> connection_lock s"
  shows "get_user_balance uid s
           = Returned (case select_user uid s of Some u \<Rightarrow> u_balance u | None \<Rightarrow> 0) s"
  using assms by (simp add: get_user_balance_def get_connection_def)

lemma get_user_balance_set_balance:
  assumes "\<not> connection_lock s" and "select_user uid s = Some u"
  shows "get_user_balance uid (set_balance uid b s) = Returned b (set_balance uid b s)"
  using assms by (simp add: get_user_balance_result select_user_set_balance)

subsection \<open>Looking rows up\<close>


lemma find_map_preserved:
  "(\<And>x. P (f x) = P x) \<Longrightarrow> find P (map f xs) = map_option f (find P xs)"
  by (induction xs) auto


lemma find_fresh_append:
  "\<forall>x \<in> set xs. \<not> P x \<Longrightarrow> P y \<Longrightarrow> find P (xs @ [y]) = Some y"
  by (induction xs) auto







subsection \<open>Fresh identifiers\<close>

lemma fold_max_ge_init: "(a::int) \<le> fold max xs a"
proof (induction xs arbitrary: a)
  case Nil
  show ?case by simp
next
  case (Cons x xs)
  have "a \<le> max x a" by simp
  also have "\<dots> \<le> fold max xs (max x a)" by (rule Cons.IH)
  finally show ?case by simp
qed

lemma fold_max_ge_elem: "x \<in> set xs \<Longrightarrow> (x::int) \<le> fold max xs a"
proof (induction xs arbitrary: a)
  case Nil
  then show ?case by simp
next
  case (Cons y ys)
  show ?case
  proof (cases "x = y")
    case True
    have "x \<le> max y a" using True by simp
    also have "\<dots> \<le> fold max ys (max y a)" by (rule fold_max_ge_init)
    finally show ?thesis by simp
  next
    case False
    with Cons.prems have "x \<in> set ys" by simp
    then show ?thesis using Cons.IH by simp
  qed
qed

lemma lastrowid_fresh: "w \<in> set ws \<Longrightarrow> w_id w \<noteq> lastrowid ws"
proof
  assume mem: "w \<in> set ws" and eq: "w_id w = lastrowid ws"
  from mem have "w_id w \<in> set (map w_id ws)" by simp
  then have "w_id w \<le> fold max (map w_id ws) 0" by (rule fold_max_ge_elem)
  with eq show False by (simp add: lastrowid_def)
qed

subsection \<open>Results of the withdrawal operations\<close>







text \<open>
  The two store functions that enter \<open>get_connection\<close> a second time never return on
  the paths that do so.
\<close>

lemma add_referral_blocks:
  assumes "\<not> connection_lock s" and "0 < bon"
  shows "add_referral referrer referred bon lvl s = Blocked"
  using assms
  by (simp add: add_referral_def get_connection_def update_user_balance_def Let_def
        split: option.split)

lemma set_withdraw_status_rejected_blocks:
  assumes "\<not> connection_lock s" and "select_request wid s = Some row"
  shows "set_withdraw_status wid Rejected s = Blocked"
  using assms
  by (simp add: set_withdraw_status_def get_connection_def update_user_balance_def
        select_request_def)

text \<open>Approving through the store functions writes no balance.\<close>

lemma set_withdraw_status_approved_keeps_balances:
  assumes "\<not> connection_lock s"
  shows "set_withdraw_status wid Approved s = Returned () (set_request_status wid Approved s)
       \<and> users (set_request_status wid Approved s) = users s"
  using assms
  by (simp add: set_withdraw_status_def get_connection_def set_request_status_def
        select_request_def split: option.split)

lemma update_withdraw_request_status_keeps_balances:
  assumes "\<not> connection_lock s"
  shows "update_withdraw_request_status rid st s = Returned () (set_request_status rid st s)
       \<and> users (set_request_status rid st s) = users s"
  using assms
  by (simp add: update_withdraw_request_status_def get_connection_def set_request_status_def)

text \<open>
  \<open>approve_order\<close> credits 10000 on every call for an order that exists, whatever
  the order's status was.
\<close>

lemma approve_order_credits_every_call:
  assumes "\<not> connection_lock s"
    and "find (\<lambda>row. o_id row = oid) (rev (orders s)) = Some ord"
    and "select_user (o_user_id ord) s = Some u"
  shows "\<exists>s'. approve_order oid s = Returned () s'
            \<and> get_user_balance (o_user_id ord) s' = Returned (u_balance u + 10000) s'"
proof -
  let ?f = "\<lambda>row. if o_id row = oid then row\<lparr>o_status := Approved\<rparr> else row"
  have "find (\<lambda>row. o_id row = oid) (map ?f (rev (orders s)))
          = map_option ?f (find (\<lambda>row. o_id row = oid) (rev (orders s)))"
    by (rule find_map_preserved) simp
  then have found: "find (\<lambda>row. o_id row = oid) (rev (map ?f (orders s))) = Some (?f ord)"
    using assms(2) by (simp add: rev_map)
  have owner: "o_user_id (?f ord) = o_user_id ord" by simp
  show ?thesis
    using assms(1,3) found owner
    by (simp add: approve_order_def update_order_status_def get_all_orders_def
          get_connection_def add_user_balance_def get_user_balance_def select_user_def
          find_balance_map)
qed

text \<open>A cancel by somebody who owns no order with that id changes nothing.\<close>

lemma cancel_order_not_owner:
  assumes "\<not> connection_lock s"
    and "\<forall>row \<in> set (orders s). o_id row = oid \<longrightarrow> o_user_id row \<noteq> uid"
  shows "cancel_order uid oid s = Returned () s"
proof -
  have "map (\<lambda>row. if o_id row = oid \<and> o_user_id row = uid
                   then row\<lparr>o_status := Rejected\<rparr> else row) (orders s) = orders s"
    using assms(2) by (intro map_idI) auto
  then show ?thesis using assms(1) by (simp add: cancel_order_def get_connection_def)
qed

text \<open>
  What \<open>process_withdraw_amount\<close> does with the two typed amounts that are not
  numbers below or above zero: \<open>-inf\<close> is refused, \<open>nan\<close> is recorded.
\<close>

lemma process_withdraw_amount_neg_inf:
  "\<not> connection_lock s \<Longrightarrow>
   process_withdraw_amount MIN_WITHDRAW_AMOUNT uid NegInf data s = Returned (BelowMinimum, data) s"
  by (simp add: process_withdraw_amount_def get_user_balance_result)

lemma process_withdraw_amount_nan:
  "\<not> connection_lock s \<Longrightarrow>
   process_withdraw_amount MIN_WITHDRAW_AMOUNT uid NaN data s
     = Returned (AmountAccepted, Some NaN) s"
  by (simp add: process_withdraw_amount_def get_user_balance_result)

subsection \<open>Rounding to a double\<close>

lemma floor_log2_eq:
  assumes "2 ^ n \<le> x" and "x < 2 ^ Suc n"
  shows "\<lfloor>log 2 x\<rfloor> = int n"
proof -
  have "(0::real) < 2 ^ n" by simp
  with assms(1) have pos: "0 < x" by linarith
  have "2 powr (real_of_int (int n)) \<le> x \<and> x < 2 powr (real_of_int (int n + 1))"
    using assms by (simp add: powr_realpow powr_add)
  then show ?thesis using floor_log_eq_powr_iff [of x 2 "int n"] pos by simp
qed

lemma double_exponent_binade:
  assumes "2 ^ n \<le> \<bar>x\<bar>" and "\<bar>x\<bar> < 2 ^ Suc n"
  shows "double_exponent x = int n"
proof -
  have "\<lfloor>log 2 \<bar>x\<bar>\<rfloor> = int n" using assms by (rule floor_log2_eq)
  then show ?thesis by (simp add: double_exponent_def)
qed

text \<open>
  For a number between \<open>2 ^ n\<close> and \<open>2 ^ (n + 1)\<close> with \<open>n \<le> 52\<close> the double
  is the number scaled by \<open>2 ^ (52 - n)\<close>, rounded to an integer and scaled back.
\<close>

lemma double_round_binade:
  assumes "2 ^ n \<le> \<bar>x\<bar>" and "\<bar>x\<bar> < 2 ^ Suc n" and "n \<le> 52"
  shows "double_round x = of_int (round_half_even (x * 2 ^ (52 - n))) / 2 ^ (52 - n)"
proof -
  have e: "double_exponent x = int n" using assms(1,2) by (rule double_exponent_binade)
  have "(0::real) < 2 ^ n" by simp
  with assms(1) have nz: "x \<noteq> 0" by linarith
  have k: "int n - 52 = - int (52 - n)" using assms(3) by linarith
  have "(2::real) powi (- int (52 - n)) = inverse (2 powi int (52 - n))"
    by (rule power_int_minus)
  also have "\<dots> = inverse (2 ^ (52 - n))" by (simp only: power_int_of_nat)
  finally have p: "(2::real) powi (int n - 52) = inverse (2 ^ (52 - n))"
    by (simp only: k)
  have "double_round x
          = of_int (round_half_even (x / inverse (2 ^ (52 - n)))) * inverse (2 ^ (52 - n))"
    using nz by (simp only: double_round_def e p if_False)
  then show ?thesis by (simp only: divide_inverse inverse_inverse_eq)
qed

lemma round_half_even_nonneg: "0 \<le> y \<Longrightarrow> 0 \<le> round_half_even y"
proof -
  assume "0 \<le> y"
  then have "0 \<le> \<lfloor>y\<rfloor>" by simp
  then show ?thesis by (simp add: round_half_even_def Let_def)
qed

lemma double_round_nonneg: "0 \<le> x \<Longrightarrow> 0 \<le> double_round x"
proof (cases "x = 0")
  case True
  then show ?thesis by (simp add: double_round_def)
next
  case False
  assume nonneg: "0 \<le> x"
  have c: "(0::real) < 2 powi (double_exponent x - 52)" by simp
  then have "0 \<le> x / 2 powi (double_exponent x - 52)" using nonneg by simp
  then have "0 \<le> round_half_even (x / 2 powi (double_exponent x - 52))"
    by (rule round_half_even_nonneg)
  then have "0 \<le> real_of_int (round_half_even (x / 2 powi (double_exponent x - 52)))
                    * 2 powi (double_exponent x - 52)"
    using c by simp
  then show ?thesis using False by (simp only: double_round_def if_False)
qed

text \<open>The roundings that occur in the examples.\<close>

lemma double_round_200: "double_round 200 = 200"
proof -
  have "double_round 200 = of_int (round_half_even (200 * 2 ^ (52 - 7))) / 2 ^ (52 - 7)"
    by (rule double_round_binade) simp_all
  then show ?thesis by (simp add: round_half_even_def Let_def)
qed

lemma double_round_600: "double_round 600 = 600"
proof -
  have "double_round 600 = of_int (round_half_even (600 * 2 ^ (52 - 9))) / 2 ^ (52 - 9)"
    by (rule double_round_binade) simp_all
  then show ?thesis by (simp add: round_half_even_def Let_def)
qed

lemma double_round_3058_72: "double_round (305872 / 100) = double_3058_72"
proof -
  have "double_round (305872 / 100)
          = of_int (round_half_even ((305872 / 100) * 2 ^ (52 - 11))) / 2 ^ (52 - 11)"
    by (rule double_round_binade) simp_all
  then show ?thesis by (simp add: round_half_even_def Let_def double_3058_72_def)
qed

lemma double_round_1009_97: "double_round (100997 / 100) = double_1009_97"
proof -
  have "double_round (100997 / 100)
          = of_int (round_half_even ((100997 / 100) * 2 ^ (52 - 9))) / 2 ^ (52 - 9)"
    by (rule double_round_binade) simp_all
  then show ?thesis by (simp add: round_half_even_def Let_def double_1009_97_def)
qed

lemma double_round_debit: "double_round (double_3058_72 - double_1009_97) = 8195 / 4"
proof -
  have v: "double_3058_72 - double_1009_97 = 9010497789624319 / 4398046511104"
    by (simp add: double_3058_72_def double_1009_97_def)
  have "double_round (9010497789624319 / 4398046511104)
          = of_int (round_half_even ((9010497789624319 / 4398046511104) * 2 ^ (52 - 11)))
              / 2 ^ (52 - 11)"
    by (rule double_round_binade) simp_all
  then show ?thesis unfolding v by (simp add: round_half_even_def Let_def)
qed

lemma double_round_refund:
  "double_round (8195 / 4 + double_1009_97) = 6726196412222014 / 2199023255552"
proof -
  have v: "8195 / 4 + double_1009_97 = 13452392824444027 / 4398046511104"
    by (simp add: double_1009_97_def)
  have "double_round (13452392824444027 / 4398046511104)
          = of_int (round_half_even ((13452392824444027 / 4398046511104) * 2 ^ (52 - 11)))
              / 2 ^ (52 - 11)"
    by (rule double_round_binade) simp_all
  then show ?thesis unfolding v by (simp add: round_half_even_def Let_def)
qed

subsection \<open>The round trip in double arithmetic\<close>

lemma create_withdraw_request_double_sufficient:
  assumes "\<not> connection_lock s" and "select_user uid s = Some u" and "amt \<le> u_balance u"
    and "wtype = ''card'' \<or> wtype = ''phone''"
  shows "create_withdraw_request_double uid amt wal wtype s =
           Returned (lastrowid (withdraw_requests s))
             (set_balance uid (double_round (u_balance u - amt))
                (s\<lparr>withdraw_requests := withdraw_requests s @ [new_request uid amt wal wtype s]\<rparr>))"
proof -
  have "0 \<le> double_round (u_balance u - amt)"
    using assms(3) by (intro double_round_nonneg) simp
  then have "max 0 (double_round (u_balance u - amt)) = double_round (u_balance u - amt)"
    by simp
  then show ?thesis
    using assms
    by (auto simp add: create_withdraw_request_double_def get_connection_def Let_def
          new_request_def set_balance_def)
qed

lemma reject_and_refund_double_result:
  assumes "\<not> connection_lock s" and "select_request rid s = Some req"
    and "select_user (w_user_id req) s = Some u"
  shows "reject_withdraw_request_and_refund_double rid s =
           Returned () (set_balance (w_user_id req) (double_round (u_balance u + w_amount req))
                          (set_request_status rid Rejected s))"
  using assms
  by (simp add: reject_withdraw_request_and_refund_double_def get_connection_def
        select_request_def set_request_status_def set_balance_def select_user_def)

lemma reject_created_double:
  assumes "\<not> connection_lock s" and "select_user uid s = Some u"
  shows "reject_withdraw_request_and_refund_double (lastrowid (withdraw_requests s))
           (set_balance uid b
              (s\<lparr>withdraw_requests := withdraw_requests s @ [new_request uid amt wal wtype s]\<rparr>))
         = Returned ()
             (set_balance uid (double_round (b + amt))
                (set_request_status (lastrowid (withdraw_requests s)) Rejected
                   (set_balance uid b
                      (s\<lparr>withdraw_requests :=
                           withdraw_requests s @ [new_request uid amt wal wtype s]\<rparr>))))"
proof -
  let ?wid = "lastrowid (withdraw_requests s)"
  let ?new = "new_request uid amt wal wtype s"
  let ?s1 = "set_balance uid b (s\<lparr>withdraw_requests := withdraw_requests s @ [?new]\<rparr>)"
  have lock1: "\<not> connection_lock ?s1" using assms(1) by simp
  have user1: "select_user uid ?s1 = Some (u\<lparr>u_balance := b\<rparr>)"
    using assms(2) by (simp add: select_user_set_balance)
  have "\<forall>w \<in> set (withdraw_requests s). \<not> w_id w = ?wid"
    using lastrowid_fresh by blast
  moreover have "w_id ?new = ?wid" by (simp add: new_request_def)
  ultimately have "find (\<lambda>w. w_id w = ?wid) (withdraw_requests s @ [?new]) = Some ?new"
    by (rule find_fresh_append)
  then have req1: "select_request ?wid ?s1 = Some ?new"
    by (simp add: select_request_def)
  have owner: "w_user_id ?new = uid" and amount: "w_amount ?new = amt"
    by (simp_all add: new_request_def)
  have "reject_withdraw_request_and_refund_double ?wid ?s1 =
          Returned () (set_balance (w_user_id ?new)
             (double_round (u_balance (u\<lparr>u_balance := b\<rparr>) + w_amount ?new))
             (set_request_status ?wid Rejected ?s1))"
    using lock1 req1 user1 by (intro reject_and_refund_double_result) (simp_all add: owner)
  then show ?thesis by (simp add: owner amount)
qed

section \<open>The claims\<close>

text \<open>
  C1. The claim: approving the same order twice credits the reward of 10000 to the
  order's owner exactly once. What \<open>approve_order\<close> does on the example store, where
  user 7 has balance 600 and owns the pending order 1: the first approval leaves balance
  10600 and the second approval of the same order leaves balance 20600. The reward is
  credited on every call (\<open>approve_order_credits_every_call\<close>), because neither
  \<open>update_order_status\<close> nor the callback reads the order's status.
\<close>

theorem approve_order_twice_credits_twice:
  "balance_after 7 (approve_order 1 example_store) = Some 10600
   \<and> balance_after 7 (twice (approve_order 1) example_store) = Some 20600"
  by (simp add: store_defs update_order_status_def get_all_orders_def approve_order_def)

text \<open>
  C2. The claim: calling \<open>add_referral\<close> twice with the same pair and a bonus
  \<open>> 0\<close> leaves one referral row and one credit of the bonus. What the code does
  with a positive bonus: the very first call \<open>add_referral(7, 8, 500)\<close> never
  returns, since \<open>update_user_balance\<close> waits for the lock that \<open>add_referral\<close>
  itself holds (\<open>add_referral_blocks\<close> for every store and every positive bonus);
  no row and no credit is committed.
\<close>

theorem add_referral_never_returns:
  "add_referral 7 8 500 1 example_store = Blocked"
  by (simp add: store_defs add_referral_def)




text \<open>
  C4. The claim: approving a withdrawal leaves every balance unchanged. The store
  functions do (\<open>set_withdraw_status_approved_keeps_balances\<close>,
  \<open>update_withdraw_request_status_keeps_balances\<close>), and so does the admin callback
  \<open>process_payment\<close>; the callback \<open>accept_withdraw\<close> does not: on the example
  store, where user 7 has balance 600 left after the pending request 1 for 400 was
  created, approving request 1 through \<open>accept_withdraw\<close> leaves balance 800, and
  through \<open>process_payment\<close> leaves 600.
\<close>

theorem accept_withdraw_changes_balance:
  "balance_after 7 (Returned () example_store) = Some 600
   \<and> balance_after 7 (accept_withdraw 1 example_store) = Some 800
   \<and> balance_after 7 (process_payment 1 example_store) = Some 600"
  by (simp add: store_defs accept_withdraw_def process_payment_def get_pending_withdraws_def
        set_withdraw_status_def update_withdraw_request_status_def)





text \<open>
  C7, as stated, fails in the arithmetic the program uses. A user whose balance is the
  double nearest to 3058.72 creates a withdrawal of the double nearest to 1009.97
  (\<open>0 < A \<le> B\<close>); the debit stores 2048.75, and the refund of the same request
  stores 3058.7200000000003, the next double above the starting balance.
\<close>

theorem withdraw_reject_round_trip_counterexample:
  "0 < double_1009_97 \<and> double_1009_97 \<le> double_3058_72
   \<and> balance_after 7 (Returned () rounding_store) = Some (6726196412222013 / 2199023255552)
   \<and> balance_after 7 (create_withdraw_request_double 7 double_1009_97 ''8600123412341234''
                         ''card'' rounding_store) = Some (8195 / 4)
   \<and> balance_after 7 (withdraw_then_reject_double 7 double_1009_97 ''8600123412341234''
                         ''card'' rounding_store) = Some (6726196412222014 / 2199023255552)"
proof -
  let ?u = "\<lparr>u_user_id = 7, u_referred_by = None, u_balance = double_3058_72,
             u_is_blocked = False\<rparr>"
  let ?s0 = "rounding_store\<lparr>withdraw_requests := withdraw_requests rounding_store @
               [new_request 7 double_1009_97 ''8600123412341234'' ''card'' rounding_store]\<rparr>"
  let ?s1 = "set_balance 7 (8195 / 4) ?s0"
  have lock: "\<not> connection_lock rounding_store" by (simp add: rounding_store_def)
  have user: "select_user 7 rounding_store = Some ?u"
    by (simp add: rounding_store_def select_user_def)
  have order: "0 < double_1009_97 \<and> double_1009_97 \<le> double_3058_72"
    by (simp add: double_1009_97_def double_3058_72_def)
  have start: "balance_after 7 (Returned () rounding_store)
                 = Some (6726196412222013 / 2199023255552)"
    using lock user by (simp add: get_user_balance_result double_3058_72_def)
  have "create_withdraw_request_double 7 double_1009_97 ''8600123412341234'' ''card''
          rounding_store
        = Returned (lastrowid (withdraw_requests rounding_store))
            (set_balance 7 (double_round (u_balance ?u - double_1009_97)) ?s0)"
    using lock user order by (intro create_withdraw_request_double_sufficient) simp_all
  then have create: "create_withdraw_request_double 7 double_1009_97 ''8600123412341234''
          ''card'' rounding_store
        = Returned (lastrowid (withdraw_requests rounding_store)) ?s1"
    by (simp add: double_round_debit)
  have lock0: "\<not> connection_lock ?s0" using lock by simp
  have user0: "select_user 7 ?s0 = Some ?u" using user by simp
  have debited: "balance_after 7 (Returned (lastrowid (withdraw_requests rounding_store)) ?s1)
                   = Some (8195 / 4)"
    using get_user_balance_set_balance [OF lock0 user0, of "8195 / 4"] by simp
  have "reject_withdraw_request_and_refund_double (lastrowid (withdraw_requests rounding_store)) ?s1
        = Returned ()
            (set_balance 7 (double_round (8195 / 4 + double_1009_97))
               (set_request_status (lastrowid (withdraw_requests rounding_store)) Rejected ?s1))"
    using lock user by (rule reject_created_double)
  then have reject: "reject_withdraw_request_and_refund_double
                       (lastrowid (withdraw_requests rounding_store)) ?s1
        = Returned ()
            (set_balance 7 (6726196412222014 / 2199023255552)
               (set_request_status (lastrowid (withdraw_requests rounding_store)) Rejected ?s1))"
    by (simp only: double_round_refund)
  have lock1: "\<not> connection_lock
                  (set_request_status (lastrowid (withdraw_requests rounding_store)) Rejected ?s1)"
    using lock by simp
  have user1: "select_user 7
                 (set_request_status (lastrowid (withdraw_requests rounding_store)) Rejected ?s1)
               = Some (?u\<lparr>u_balance := 8195 / 4\<rparr>)"
    using user by (simp add: select_user_set_balance)
  have refunded: "balance_after 7 (withdraw_then_reject_double 7 double_1009_97
                    ''8600123412341234'' ''card'' rounding_store)
                  = Some (6726196412222014 / 2199023255552)"
    using get_user_balance_set_balance [OF lock1 user1, of "6726196412222014 / 2199023255552"]
    by (simp add: withdraw_then_reject_double_def create reject)
  show ?thesis using order start create debited refunded by simp
qed

text \<open>
  C7, amended. For an existing user with balance \<open>B\<close> below \<open>2 ^ 1023\<close> and an
  amount \<open>A\<close> with \<open>0 < A \<le> B\<close> (and a method the table accepts),
  \<open>create_withdraw_request\<close> returns an id and leaves the balance at the double
  nearest to \<open>B - A\<close>, and \<open>reject_withdraw_request_and_refund\<close> of that id then
  returns and leaves the balance at the double nearest to that balance plus \<open>A\<close>.
  This is exactly \<open>B\<close> whenever \<open>B\<close> and \<open>B - A\<close> are doubles, as with 1000 and
  400 in the spec's example.
\<close>

theorem withdraw_reject_round_trip_rounded:
  assumes "\<not> connection_lock s" and "select_user uid s = Some u"
    and "0 < amt" and "amt \<le> u_balance u" and "u_balance u < 2 ^ 1023"
    and "wtype = ''card'' \<or> wtype = ''phone''"
  shows "\<exists>wid s1 s2.
           create_withdraw_request_double uid amt wal wtype s = Returned wid s1
         \<and> get_user_balance uid s1 = Returned (double_round (u_balance u - amt)) s1
         \<and> reject_withdraw_request_and_refund_double wid s1 = Returned () s2
         \<and> get_user_balance uid s2
             = Returned (double_round (double_round (u_balance u - amt) + amt)) s2
         \<and> (double_round (u_balance u - amt) = u_balance u - amt
              \<and> double_round (u_balance u) = u_balance u
              \<longrightarrow> get_user_balance uid s2 = Returned (u_balance u) s2)"
proof -
  let ?wid = "lastrowid (withdraw_requests s)"
  let ?d = "double_round (u_balance u - amt)"
  let ?r = "double_round (?d + amt)"
  let ?s0 = "s\<lparr>withdraw_requests := withdraw_requests s @ [new_request uid amt wal wtype s]\<rparr>"
  let ?s1 = "set_balance uid ?d ?s0"
  let ?s2 = "set_balance uid ?r (set_request_status ?wid Rejected ?s1)"
  have create: "create_withdraw_request_double uid amt wal wtype s = Returned ?wid ?s1"
    using assms(1,2,4,6) by (rule create_withdraw_request_double_sufficient)
  have lock0: "\<not> connection_lock ?s0" using assms(1) by simp
  have user0: "select_user uid ?s0 = Some u" using assms(2) by simp
  have bal1: "get_user_balance uid ?s1 = Returned ?d ?s1"
    using lock0 user0 by (rule get_user_balance_set_balance)
  have reject: "reject_withdraw_request_and_refund_double ?wid ?s1 = Returned () ?s2"
    using assms(1,2) by (rule reject_created_double)
  have lock1: "\<not> connection_lock (set_request_status ?wid Rejected ?s1)"
    using assms(1) by simp
  have user1: "select_user uid (set_request_status ?wid Rejected ?s1)
                 = Some (u\<lparr>u_balance := ?d\<rparr>)"
    using assms(2) by (simp add: select_user_set_balance)
  have bal2: "get_user_balance uid ?s2 = Returned ?r ?s2"
    using lock1 user1 by (rule get_user_balance_set_balance)
  have exact: "get_user_balance uid ?s2 = Returned (u_balance u) ?s2"
    if "?d = u_balance u - amt \<and> double_round (u_balance u) = u_balance u"
  proof -
    from that have "?r = u_balance u" by simp
    with bal2 show ?thesis by simp
  qed
  show ?thesis using create bal1 reject bal2 exact by blast
qed

theorem withdraw_reject_round_trip_rounded_witness:
  "\<not> connection_lock example_store
   \<and> select_user 7 example_store = Some example_user
   \<and> (0::real) < 400 \<and> 400 \<le> u_balance example_user \<and> u_balance example_user < 2 ^ 1023
   \<and> double_round (u_balance example_user - 400) = u_balance example_user - 400
   \<and> double_round (u_balance example_user) = u_balance example_user
   \<and> create_withdraw_request_double 7 400 ''8600123412341234'' ''card'' example_store
       = Returned 2 example_store_debited
   \<and> balance_after 7 (Returned () example_store_debited) = Some 200
   \<and> balance_after 7 (reject_withdraw_request_and_refund_double 2 example_store_debited)
       = Some 600"
  using withdraw_reject_round_trip_rounded [of example_store 7 example_user 400 "''card''"
          "''8600123412341234''"]
  by (simp add: store_defs create_withdraw_request_double_def
        reject_withdraw_request_and_refund_double_def example_request_def
        example_store_debited_def double_round_200 double_round_600)

text \<open>
  C8. The claim: \<open>cancel_order\<close> changes nothing when the caller is not the owner or
  the order is not pending. The first half holds (\<open>cancel_order_not_owner\<close>). The
  second does not: the statement's \<open>WHERE\<close> clause names the id and the user only,
  so the owner's cancel of the approved order 2 of the example store turns it into a
  rejected order.
\<close>

theorem cancel_order_ignores_status:
  "cancel_order 7 2 example_store =
     Returned () (example_store\<lparr>orders := [\<lparr>o_id = 1, o_user_id = 7, o_status = Pending\<rparr>,
                                            \<lparr>o_id = 2, o_user_id = 7, o_status = Rejected\<rparr>]\<rparr>)"
  by (simp add: store_defs cancel_order_def)






end
